theory Spec2Isabelle
  imports Complex_Main "HOL-Library.Word"
begin

section \<open>JavaScript strings\<close>

text \<open>
  A JavaScript string is a sequence of UTF-16 code units; \<open>length\<close>, \<open>slice\<close> and a
  regular expression without the \<open>u\<close> flag all count code units.  \<open>js\<close> turns an
  ASCII literal into such a sequence.
\<close>

type_synonym jschar = "16 word"
type_synonym jsstring = "jschar list"

definition js :: "string \<Rightarrow> jsstring" where
  "js s = map (\<lambda>c. of_char c) s"

text \<open>\<open>String.prototype.slice(start, end)\<close>; \<open>None\<close> is an omitted \<open>end\<close>.\<close>

definition slice :: "jsstring \<Rightarrow> int \<Rightarrow> int option \<Rightarrow> jsstring" where
  "slice s start end =
     (let len = int (length s);
          from = (if start < 0 then max (len + start) 0 else min start len);
          to = (case end of
                  None \<Rightarrow> len
                | Some e \<Rightarrow> if e < 0 then max (len + e) 0 else min e len)
      in take (nat (to - from)) (drop (nat from) s))"

text \<open>
  The pattern \<open>/./g\<close> has no \<open>s\<close> flag, so the dot matches every code unit except the
  four line terminators LF, CR, U+2028 and U+2029.
\<close>

definition is_line_terminator :: "jschar \<Rightarrow> bool" where
  "is_line_terminator c \<longleftrightarrow> c = 0x0A \<or> c = 0x0D \<or> c = 0x2028 \<or> c = 0x2029"

definition replace_dot_g :: "jschar \<Rightarrow> jsstring \<Rightarrow> jsstring" where
  "replace_dot_g r s = map (\<lambda>c. if is_line_terminator c then c else r) s"

definition star :: jschar where
  "star = 0x2A"

definition bullet :: jschar where
  "bullet = 0x2022"

section \<open>Number(val)\<close>

text \<open>
  \<open>Number\<close> applied to a string (StringToNumber).  The schemas use the result only in
  \<open>isNaN\<close> and in \<open>> 0\<close>, so a finite result carries the mathematical value of the
  literal, and rounding to binary64 is written out where it changes the outcome of these
  tests: magnitudes up to \<open>2^-1075\<close> become \<open>0\<close>, magnitudes from
  \<open>2^1024 - 2^970\<close> become infinite.
\<close>

datatype js_number = NaN | PosInfinity | NegInfinity | Finite rat

definition isNaN :: "js_number \<Rightarrow> bool" where
  "isNaN n \<longleftrightarrow> n = NaN"

fun js_gt :: "js_number \<Rightarrow> js_number \<Rightarrow> bool" where
  "js_gt NaN _ = False"
| "js_gt _ NaN = False"
| "js_gt PosInfinity PosInfinity = False"
| "js_gt PosInfinity _ = True"
| "js_gt NegInfinity _ = False"
| "js_gt (Finite a) PosInfinity = False"
| "js_gt (Finite a) NegInfinity = True"
| "js_gt (Finite a) (Finite b) = (b < a)"

definition is_str_whitespace :: "jschar \<Rightarrow> bool" where
  "is_str_whitespace c \<longleftrightarrow>
     c = 0x09 \<or> c = 0x0B \<or> c = 0x0C \<or> c = 0x20 \<or> c = 0xA0 \<or> c = 0x1680 \<or>
     (0x2000 \<le> c \<and> c \<le> 0x200A) \<or> c = 0x202F \<or> c = 0x205F \<or> c = 0x3000 \<or>
     c = 0xFEFF \<or> is_line_terminator c"

definition trim_ws :: "jsstring \<Rightarrow> jsstring" where
  "trim_ws s = rev (dropWhile is_str_whitespace (rev (dropWhile is_str_whitespace s)))"

definition is_decimal_digit :: "jschar \<Rightarrow> bool" where
  "is_decimal_digit c \<longleftrightarrow> 0x30 \<le> c \<and> c \<le> 0x39"

definition digit_val :: "nat \<Rightarrow> jschar \<Rightarrow> nat option" where
  "digit_val b c =
     (let v = (if 0x30 \<le> c \<and> c \<le> 0x39 then Some (unat c - 48)
               else if 0x61 \<le> c \<and> c \<le> 0x66 then Some (unat c - 87)
               else if 0x41 \<le> c \<and> c \<le> 0x46 then Some (unat c - 55)
               else None)
      in case v of None \<Rightarrow> None | Some d \<Rightarrow> if d < b then Some d else None)"

fun digits_acc :: "nat \<Rightarrow> nat \<Rightarrow> jsstring \<Rightarrow> nat option" where
  "digits_acc b acc [] = Some acc"
| "digits_acc b acc (c # cs) =
     (case digit_val b c of
        None \<Rightarrow> None
      | Some d \<Rightarrow> digits_acc b (acc * b + d) cs)"

definition parse_digits :: "nat \<Rightarrow> jsstring \<Rightarrow> nat option" where
  "parse_digits b s = (if s = [] then None else digits_acc b 0 s)"

definition signed_integer :: "jsstring \<Rightarrow> int option" where
  "signed_integer s =
     (case s of
        [] \<Rightarrow> None
      | c # cs \<Rightarrow>
          if c = 0x2B then map_option int (parse_digits 10 cs)
          else if c = 0x2D then map_option (\<lambda>n. - int n) (parse_digits 10 cs)
          else map_option int (parse_digits 10 s))"

definition exponent_part :: "jsstring \<Rightarrow> int option" where
  "exponent_part r =
     (case r of
        [] \<Rightarrow> Some 0
      | c # cs \<Rightarrow> if c = 0x65 \<or> c = 0x45 then signed_integer cs else None)"

definition round_double :: "rat \<Rightarrow> js_number" where
  "round_double q =
     (if \<bar>q\<bar> \<le> 1 / 2 ^ 1075 then Finite 0
      else if 2 ^ 1024 - 2 ^ 970 \<le> \<bar>q\<bar> then (if q < 0 then NegInfinity else PosInfinity)
      else Finite q)"

definition unsigned_decimal :: "jsstring \<Rightarrow> rat option" where
  "unsigned_decimal s =
     (let ip = takeWhile is_decimal_digit s;
          r1 = dropWhile is_decimal_digit s;
          dot = (r1 \<noteq> [] \<and> hd r1 = 0x2E);
          fp = (if dot then takeWhile is_decimal_digit (tl r1) else []);
          r2 = (if dot then dropWhile is_decimal_digit (tl r1) else r1)
      in if ip = [] \<and> fp = [] then None
         else case exponent_part r2 of
                None \<Rightarrow> None
              | Some e \<Rightarrow>
                  (case digits_acc 10 0 (ip @ fp) of
                     None \<Rightarrow> None
                   | Some m \<Rightarrow> Some (of_nat m * 10 powi (e - int (length fp)))))"

definition str_unsigned_decimal_literal :: "jsstring \<Rightarrow> js_number" where
  "str_unsigned_decimal_literal s =
     (if s = js ''Infinity'' then PosInfinity
      else case unsigned_decimal s of None \<Rightarrow> NaN | Some q \<Rightarrow> round_double q)"

definition negate :: "js_number \<Rightarrow> js_number" where
  "negate n =
     (case n of
        NaN \<Rightarrow> NaN
      | PosInfinity \<Rightarrow> NegInfinity
      | NegInfinity \<Rightarrow> PosInfinity
      | Finite q \<Rightarrow> Finite (- q))"

definition str_decimal_literal :: "jsstring \<Rightarrow> js_number" where
  "str_decimal_literal s =
     (case s of
        [] \<Rightarrow> NaN
      | c # cs \<Rightarrow>
          if c = 0x2B then str_unsigned_decimal_literal cs
          else if c = 0x2D then negate (str_unsigned_decimal_literal cs)
          else str_unsigned_decimal_literal s)"

definition non_decimal_integer_literal :: "jsstring \<Rightarrow> nat option option" where
  "non_decimal_integer_literal s =
     (case s of
        c0 # c1 # cs \<Rightarrow>
          if c0 = 0x30 \<and> (c1 = 0x78 \<or> c1 = 0x58) then Some (parse_digits 16 cs)
          else if c0 = 0x30 \<and> (c1 = 0x6F \<or> c1 = 0x4F) then Some (parse_digits 8 cs)
          else if c0 = 0x30 \<and> (c1 = 0x62 \<or> c1 = 0x42) then Some (parse_digits 2 cs)
          else None
      | _ \<Rightarrow> None)"

definition Number :: "jsstring \<Rightarrow> js_number" where
  "Number val =
     (let t = trim_ws val
      in if t = [] then Finite 0
         else case non_decimal_integer_literal t of
                Some None \<Rightarrow> NaN
              | Some (Some n) \<Rightarrow> round_double (of_nat n)
              | None \<Rightarrow> str_decimal_literal t)"

section \<open>Summary masking (TransferSummary)\<close>

definition mask_account :: "jsstring \<Rightarrow> jsstring" where
  "mask_account accountNumber =
     replace_dot_g star (slice accountNumber 0 (Some (- 4))) @ slice accountNumber (- 4) None"

definition mask_token :: jsstring where
  "mask_token = replicate 9 bullet"

definition mask_iban :: "jsstring \<Rightarrow> jsstring" where
  "mask_iban iban = slice iban 0 (Some 4) @ mask_token @ slice iban (- 4) None"

section \<open>Form values\<close>

text \<open>
  \<open>TransferFormValues\<close> is the union of the two object types, discriminated by
  \<open>transferType\<close>: the fields every transfer has are the record's, the fields of one
  variant are the constructor's.  \<open>description\<close> is the only optional field.
\<close>

datatype transfer_type = Domestic | International

datatype variant_fields =
  DomesticFields jsstring jsstring
| InternationalFields jsstring jsstring jsstring jsstring jsstring

record transfer_form_values =
  recipientName :: jsstring
  bankName :: jsstring
  amount :: jsstring
  description :: "jsstring option"
  variant :: variant_fields

definition transferType :: "'a transfer_form_values_scheme \<Rightarrow> transfer_type" where
  "transferType data =
     (case variant data of
        DomesticFields _ _ \<Rightarrow> Domestic
      | InternationalFields _ _ _ _ _ \<Rightarrow> International)"

text \<open>Reading a field of one variant; \<open>None\<close> is JavaScript's \<open>undefined\<close>.\<close>

definition accountNumber :: "'a transfer_form_values_scheme \<Rightarrow> jsstring option" where
  "accountNumber data =
     (case variant data of DomesticFields a r \<Rightarrow> Some a | _ \<Rightarrow> None)"

definition routingNumber :: "'a transfer_form_values_scheme \<Rightarrow> jsstring option" where
  "routingNumber data =
     (case variant data of DomesticFields a r \<Rightarrow> Some r | _ \<Rightarrow> None)"

definition iban :: "'a transfer_form_values_scheme \<Rightarrow> jsstring option" where
  "iban data =
     (case variant data of InternationalFields i s a c u \<Rightarrow> Some i | _ \<Rightarrow> None)"

definition swiftCode :: "'a transfer_form_values_scheme \<Rightarrow> jsstring option" where
  "swiftCode data =
     (case variant data of InternationalFields i s a c u \<Rightarrow> Some s | _ \<Rightarrow> None)"

definition bankAddress :: "'a transfer_form_values_scheme \<Rightarrow> jsstring option" where
  "bankAddress data =
     (case variant data of InternationalFields i s a c u \<Rightarrow> Some a | _ \<Rightarrow> None)"

definition bankCountry :: "'a transfer_form_values_scheme \<Rightarrow> jsstring option" where
  "bankCountry data =
     (case variant data of InternationalFields i s a c u \<Rightarrow> Some c | _ \<Rightarrow> None)"

definition currency :: "'a transfer_form_values_scheme \<Rightarrow> jsstring option" where
  "currency data =
     (case variant data of InternationalFields i s a c u \<Rightarrow> Some u | _ \<Rightarrow> None)"

section \<open>Validation schemas\<close>

text \<open>
  A schema maps the values to the list of issues zod reports, each a path and a message,
  in the order of the schema's keys; the values are valid when the list is empty.  The
  messages that the source does not give are zod's own defaults.
\<close>

type_synonym issue = "string \<times> string"

definition z_literal :: "string \<Rightarrow> string \<Rightarrow> transfer_type \<Rightarrow> transfer_type \<Rightarrow> issue list" where
  "z_literal path name expected actual =
     (if actual = expected then []
      else [(path, ''Invalid literal value, expected '' @ [CHR 0x22] @ name @ [CHR 0x22])])"

definition z_string :: "string \<Rightarrow> (jsstring \<Rightarrow> issue list) \<Rightarrow> jsstring option \<Rightarrow> issue list" where
  "z_string path checks v =
     (case v of None \<Rightarrow> [(path, ''Required'')] | Some s \<Rightarrow> checks s)"

definition z_min :: "string \<Rightarrow> nat \<Rightarrow> string \<Rightarrow> jsstring \<Rightarrow> issue list" where
  "z_min path n message s = (if length s < n then [(path, message)] else [])"

definition z_max :: "string \<Rightarrow> nat \<Rightarrow> string \<Rightarrow> jsstring \<Rightarrow> issue list" where
  "z_max path n message s = (if n < length s then [(path, message)] else [])"

definition z_refine :: "string \<Rightarrow> ('a \<Rightarrow> bool) \<Rightarrow> string \<Rightarrow> 'a \<Rightarrow> issue list" where
  "z_refine path check message v = (if check v then [] else [(path, message)])"

definition amount_refinement :: "jsstring \<Rightarrow> bool" where
  "amount_refinement val \<longleftrightarrow> \<not> isNaN (Number val) \<and> js_gt (Number val) (Finite 0)"

definition amount_schema :: "jsstring \<Rightarrow> issue list" where
  "amount_schema = z_refine ''amount'' amount_refinement ''Amount must be a positive number.''"

definition routingNumber_schema :: "jsstring \<Rightarrow> issue list" where
  "routingNumber_schema s =
     z_min ''routingNumber'' 9 ''Routing number must be 9 digits.'' s @
     z_max ''routingNumber'' 9 ''String must contain at most 9 character(s)'' s"

definition swiftCode_schema :: "jsstring \<Rightarrow> issue list" where
  "swiftCode_schema s =
     z_min ''swiftCode'' 8 ''SWIFT/BIC code must be at least 8 characters.'' s @
     z_max ''swiftCode'' 11 ''String must contain at most 11 character(s)'' s"

definition domesticFormSchema :: "'a transfer_form_values_scheme \<Rightarrow> issue list" where
  "domesticFormSchema data =
     z_literal ''transferType'' ''domestic'' Domestic (transferType data) @
     z_min ''recipientName'' 2 ''Name must be at least 2 characters.'' (recipientName data) @
     z_string ''accountNumber''
       (z_min ''accountNumber'' 8 ''Account number must be at least 8 characters.'')
       (accountNumber data) @
     z_string ''routingNumber'' routingNumber_schema (routingNumber data) @
     z_min ''bankName'' 2 ''Bank name is required.'' (bankName data) @
     amount_schema (amount data)"

text \<open>
  The keys the two international schemas share.  The one of the tabbed form adds the
  \<open>transferType\<close> literal, the one of \<open>TransferForm.tsx\<close> the Stripe fields.
\<close>

definition international_fields :: "'a transfer_form_values_scheme \<Rightarrow> issue list" where
  "international_fields data =
     z_min ''recipientName'' 2 ''Name must be at least 2 characters.'' (recipientName data) @
     z_string ''iban'' (z_min ''iban'' 15 ''IBAN must be at least 15 characters.'') (iban data) @
     z_string ''swiftCode'' swiftCode_schema (swiftCode data) @
     z_min ''bankName'' 2 ''Bank name is required.'' (bankName data) @
     z_string ''bankAddress'' (z_min ''bankAddress'' 5 ''Bank address is required.'')
       (bankAddress data) @
     z_string ''bankCountry'' (z_min ''bankCountry'' 2 ''Bank country is required.'')
       (bankCountry data) @
     amount_schema (amount data) @
     z_string ''currency'' (z_min ''currency'' 3 ''Currency code is required.'') (currency data)"

definition internationalFormSchema :: "'a transfer_form_values_scheme \<Rightarrow> issue list" where
  "internationalFormSchema data =
     z_literal ''transferType'' ''international'' International (transferType data) @
     international_fields data"

subsection \<open>The schema of \<open>TransferForm.tsx\<close>, with the Stripe fields\<close>

record stripe_form_values = transfer_form_values +
  useStripe :: bool
  stripeAccountId :: "jsstring option"
  stripePublishableKey :: "jsstring option"

definition stripeAccountId_refinement :: "stripe_form_values \<Rightarrow> bool" where
  "stripeAccountId_refinement data =
     (if useStripe data \<and>
         (case stripeAccountId data of None \<Rightarrow> True | Some a \<Rightarrow> a = [] \<or> length a < 3)
      then False else True)"

definition stripePublishableKey_refinement :: "stripe_form_values \<Rightarrow> bool" where
  "stripePublishableKey_refinement data =
     (if useStripe data \<and>
         (case stripePublishableKey data of None \<Rightarrow> True | Some k \<Rightarrow> k = [] \<or> length k < 10)
      then False else True)"

text \<open>
  A refinement of an object runs unless the object's parse was aborted, which a failed
  length check or a failed refinement of a field does not do; only a value of the wrong
  type does, here one of the five fields being absent.
\<close>

definition stripeFormSchema :: "stripe_form_values \<Rightarrow> issue list" where
  "stripeFormSchema data =
     international_fields data @
     (if transferType data \<noteq> International then []
      else z_refine ''stripeAccountId'' stripeAccountId_refinement
             ''Stripe Account ID is required when using Stripe.'' data @
           z_refine ''stripePublishableKey'' stripePublishableKey_refinement
             ''Stripe Publishable Key is required when using Stripe.'' data)"

section \<open>The summary's variant rows\<close>

definition TransferSummary_details :: "'a transfer_form_values_scheme \<Rightarrow> (string \<times> jsstring) list" where
  "TransferSummary_details formData =
     (case variant formData of
        DomesticFields a r \<Rightarrow>
          [(''Account Number:'', mask_account a), (''Routing Number:'', r)]
      | InternationalFields i s ad c u \<Rightarrow>
          [(''IBAN:'', mask_iban i), (''SWIFT/BIC:'', s),
           (''Bank Address:'', ad), (''Bank Country:'', c)])"

section \<open>The wizard\<close>

datatype step = Form | Summary | Success

record toast =
  title :: string
  toast_description :: jsstring

text \<open>
  The component's state: the three \<open>useState\<close> cells, the values and errors held by
  \<open>useForm\<close>, the callbacks scheduled by \<open>setTimeout\<close> that have not run yet (each
  with the \<open>formData\<close> it closed over) and the toasts shown so far.
\<close>

record wizard =
  activeTab :: transfer_type
  step :: step
  formData :: "transfer_form_values option"
  form :: transfer_form_values
  form_errors :: "issue list"
  timers :: "transfer_form_values option list"
  toasts :: "toast list"

definition resolver :: "transfer_type \<Rightarrow> transfer_form_values \<Rightarrow> issue list" where
  "resolver tab = (if tab = Domestic then domesticFormSchema else internationalFormSchema)"

definition onSubmit :: "transfer_form_values \<Rightarrow> wizard \<Rightarrow> wizard" where
  "onSubmit data s = s\<lparr>formData := Some data, step := Summary\<rparr>"

text \<open>\<open>form.handleSubmit(onSubmit)\<close>: the resolver runs first, \<open>onSubmit\<close> only on success.\<close>

definition handleSubmit :: "wizard \<Rightarrow> wizard" where
  "handleSubmit s =
     (let errors = resolver (activeTab s) (form s)
      in if errors = [] then onSubmit (form s) (s\<lparr>form_errors := []\<rparr>)
         else s\<lparr>form_errors := errors\<rparr>)"

definition field_error :: "issue list \<Rightarrow> string \<Rightarrow> string option" where
  "field_error errors path = map_of errors path"

definition or_empty :: "jsstring \<Rightarrow> jsstring" where
  "or_empty v = (if v = [] then [] else v)"

definition default_variant :: "transfer_type \<Rightarrow> variant_fields" where
  "default_variant tab =
     (if tab = Domestic then DomesticFields [] []
      else InternationalFields [] [] [] [] (js ''USD''))"

definition handleTabChange :: "transfer_type \<Rightarrow> wizard \<Rightarrow> wizard" where
  "handleTabChange v s = s\<lparr>activeTab := v\<rparr>"

text \<open>The effect on \<open>activeTab\<close>: \<open>form.reset\<close> with the values it builds.\<close>

definition tab_effect :: "wizard \<Rightarrow> wizard" where
  "tab_effect s =
     s\<lparr>form :=
         \<lparr>recipientName = or_empty (recipientName (form s)),
          bankName = or_empty (bankName (form s)),
          amount = or_empty (amount (form s)),
          description =
            Some (case description (form s) of None \<Rightarrow> [] | Some d \<Rightarrow> or_empty d),
          variant = default_variant (activeTab s)\<rparr>,
       form_errors := []\<rparr>"

text \<open>A tab change followed by the effect, which runs when \<open>activeTab\<close> has changed.\<close>

definition selectVariant :: "transfer_type \<Rightarrow> wizard \<Rightarrow> wizard" where
  "selectVariant v s =
     (if v = activeTab s then handleTabChange v s else tab_effect (handleTabChange v s))"

definition amount_text :: "transfer_form_values option \<Rightarrow> jsstring" where
  "amount_text fd = (case fd of None \<Rightarrow> js ''undefined'' | Some d \<Rightarrow> amount d)"

definition handleConfirmTransfer :: "wizard \<Rightarrow> wizard" where
  "handleConfirmTransfer s = s\<lparr>timers := timers s @ [formData s]\<rparr>"

definition success_toast :: "transfer_form_values option \<Rightarrow> toast" where
  "success_toast fd =
     \<lparr>title = ''Transfer Successful!'',
      toast_description =
        js ''Your transfer of $'' @ amount_text fd @ js '' has been initiated.''\<rparr>"

text \<open>The oldest scheduled callback runs: it shows the toast and sets the step.\<close>

definition timer_fires :: "wizard \<Rightarrow> wizard" where
  "timer_fires s =
     (case timers s of
        [] \<Rightarrow> s
      | fd # rest \<Rightarrow>
          s\<lparr>timers := rest, toasts := toasts s @ [success_toast fd], step := Success\<rparr>)"

section \<open>The specification's rules, in its own words\<close>

text \<open>
  What the specification requires of a draft, written from its data model: the minimum
  and maximum lengths of each field and an amount that parses as a number greater than
  zero.  The theorems below compare the schemas with these.
\<close>

definition parses_as_positive_number :: "jsstring \<Rightarrow> bool" where
  "parses_as_positive_number val =
     (case Number val of Finite q \<Rightarrow> 0 < q | PosInfinity \<Rightarrow> True | _ \<Rightarrow> False)"

definition spec_well_formed :: "transfer_type \<Rightarrow> transfer_form_values \<Rightarrow> bool" where
  "spec_well_formed tab d \<longleftrightarrow>
     2 \<le> length (recipientName d) \<and> 2 \<le> length (bankName d) \<and>
     parses_as_positive_number (amount d) \<and>
     (case tab of
        Domestic \<Rightarrow>
          (case variant d of
             DomesticFields a r \<Rightarrow> 8 \<le> length a \<and> length r = 9
           | InternationalFields i s ad c u \<Rightarrow> False)
      | International \<Rightarrow>
          (case variant d of
             DomesticFields a r \<Rightarrow> False
           | InternationalFields i s ad c u \<Rightarrow>
               15 \<le> length i \<and> 8 \<le> length s \<and> length s \<le> 11 \<and>
               5 \<le> length ad \<and> 2 \<le> length c \<and> 3 \<le> length u))"

definition too_short :: "nat \<Rightarrow> jsstring option \<Rightarrow> bool" where
  "too_short n v = (case v of None \<Rightarrow> True | Some s \<Rightarrow> length s < n)"

definition spec_field_violated :: "transfer_type \<Rightarrow> transfer_form_values \<Rightarrow> string \<Rightarrow> bool" where
  "spec_field_violated tab d path =
     (if path = ''transferType'' then transferType d \<noteq> tab
      else if path = ''recipientName'' then length (recipientName d) < 2
      else if path = ''bankName'' then length (bankName d) < 2
      else if path = ''amount'' then \<not> parses_as_positive_number (amount d)
      else if tab = Domestic then
        (if path = ''accountNumber'' then too_short 8 (accountNumber d)
         else if path = ''routingNumber'' then
           (case routingNumber d of None \<Rightarrow> True | Some r \<Rightarrow> length r \<noteq> 9)
         else False)
      else
        (if path = ''iban'' then too_short 15 (iban d)
         else if path = ''swiftCode'' then
           (case swiftCode d of None \<Rightarrow> True | Some s \<Rightarrow> length s < 8 \<or> 11 < length s)
         else if path = ''bankAddress'' then too_short 5 (bankAddress d)
         else if path = ''bankCountry'' then too_short 2 (bankCountry d)
         else if path = ''currency'' then too_short 3 (currency d)
         else False))"

definition spec_stripe_ok :: "stripe_form_values \<Rightarrow> bool" where
  "spec_stripe_ok data \<longleftrightarrow>
     useStripe data = False \<or>
     (\<not> too_short 3 (stripeAccountId data) \<and> \<not> too_short 10 (stripePublishableKey data))"

section \<open>Example values\<close>

definition example_domestic :: transfer_form_values where
  "example_domestic =
     \<lparr>recipientName = js ''John Doe'', bankName = js ''Bank A'', amount = js ''250.00'',
      description = None,
      variant = DomesticFields (js ''1234567890'') (js ''123456789'')\<rparr>"

definition example_international :: transfer_form_values where
  "example_international =
     \<lparr>recipientName = js ''Jane Smith'', bankName = js ''HSBC'', amount = js ''1000.00'',
      description = Some (js ''Invoice payment''),
      variant = InternationalFields (js ''GB29NWBK60161331926819'') (js ''HSBCGB2L'')
        (js ''8 Canada Square, London'') (js ''United Kingdom'') (js ''GBP'')\<rparr>"

definition example_wizard :: "transfer_form_values \<Rightarrow> wizard" where
  "example_wizard d =
     \<lparr>activeTab = transferType d, step = Form, formData = None, form = d,
      form_errors = [], timers = [], toasts = []\<rparr>"

definition example_stripe :: stripe_form_values where
  "example_stripe =
     \<lparr>recipientName = js ''Jane Smith'', bankName = js ''HSBC'', amount = js ''1000.00'',
      description = Some (js ''Invoice payment''),
      variant = InternationalFields (js ''GB29NWBK60161331926819'') (js ''HSBCGB2L'')
        (js ''8 Canada Square, London'') (js ''United Kingdom'') (js ''GBP''),
      useStripe = True, stripeAccountId = Some [],
      stripePublishableKey = Some (js ''pk_test_0123456789'')\<rparr>"

text \<open>The wizard showing the summary of a committed draft, nothing pending.\<close>

definition example_summary :: wizard where
  "example_summary =
     \<lparr>activeTab = Domestic, step = Summary, formData = Some example_domestic,
      form = example_domestic, form_errors = [], timers = [], toasts = []\<rparr>"

section \<open>Strings and masking\<close>

lemma slice_but_last4: "slice s 0 (Some (- 4)) = take (length s - 4) s"
  by (simp add: slice_def Let_def max_def nat_diff_distrib')

lemma slice_last4: "slice s (- 4) None = drop (length s - 4) s"
  by (auto simp add: slice_def Let_def max_def nat_diff_distrib' nat_add_distrib)

lemma slice_first4: "slice s 0 (Some 4) = take 4 s"
  by (auto simp add: slice_def Let_def min_def)

lemma length_replace_dot_g: "length (replace_dot_g r s) = length s"
  by (simp add: replace_dot_g_def)

lemma replace_dot_g_no_terminator:
  "\<forall>c \<in> set s. \<not> is_line_terminator c \<Longrightarrow> replace_dot_g r s = replicate (length s) r"
  by (induction s) (auto simp add: replace_dot_g_def)

lemma mask_account_eq:
  "mask_account a = replace_dot_g star (take (length a - 4) a) @ drop (length a - 4) a"
  by (simp add: mask_account_def slice_but_last4 slice_last4)

lemma mask_iban_eq: "mask_iban i = take 4 i @ mask_token @ drop (length i - 4) i"
  by (simp add: mask_iban_def slice_first4 slice_last4)

text \<open>
  An account number with no line terminator among its leading characters is masked as
  intended: stars, then the last four characters.
\<close>

lemma mask_account_plain:
  assumes "\<forall>c \<in> set (take (length a - 4) a). \<not> is_line_terminator c"
  shows "mask_account a = replicate (length a - 4) star @ drop (length a - 4) a"
  using replace_dot_g_no_terminator [OF assms, of star] by (simp add: mask_account_eq)

lemma mask_account_example: "mask_account (js ''1234567890'') = js ''******7890''"
  by (simp add: mask_account_eq js_def replace_dot_g_def is_line_terminator_def star_def)

text \<open>
  C7, as the code has it: an account number of fewer than four characters is shown
  unchanged, with nothing masked.
\<close>

theorem mask_account_short:
  assumes "length a < 4"
  shows "mask_account a = a"
  using assms by (simp add: mask_account_eq replace_dot_g_def)

theorem mask_account_short_witness:
  "length (js ''123'') < 4 \<and> mask_account (js ''123'') = js ''123''"
  using mask_account_short [of "js ''123''"] by (simp add: js_def)

theorem mask_account_short_counterexample:
  "TransferSummary_details
     (example_domestic\<lparr>variant := DomesticFields (js ''123'') (js ''123456789'')\<rparr>) =
     [(''Account Number:'', js ''123''), (''Routing Number:'', js ''123456789'')]"
  by (simp add: TransferSummary_details_def example_domestic_def mask_account_eq js_def
        replace_dot_g_def)

text \<open>
  C8: the last four characters of a masked account number of at least four characters
  are those of the original; a masked IBAN of at least fifteen characters keeps the first
  four and the last four characters and has the same nine-character token between them,
  whatever its length.
\<close>

theorem masking_round_trip:
  "(4 \<le> length a \<longrightarrow>
      drop (length (mask_account a) - 4) (mask_account a) = drop (length a - 4) a \<and>
      length (drop (length a - 4) a) = 4) \<and>
   (15 \<le> length i \<longrightarrow>
      take 4 (mask_iban i) = take 4 i \<and>
      drop (length (mask_iban i) - 4) (mask_iban i) = drop (length i - 4) i \<and>
      mask_iban i = take 4 i @ mask_token @ drop (length i - 4) i \<and>
      length (take 4 i) = 4 \<and> length (drop (length i - 4) i) = 4 \<and>
      mask_token = replicate 9 bullet)"
  by (auto simp add: mask_account_eq mask_iban_eq length_replace_dot_g mask_token_def)

theorem masking_round_trip_witness:
  "4 \<le> length (js ''1234567890'') \<and>
   drop (length (mask_account (js ''1234567890'')) - 4) (mask_account (js ''1234567890'')) =
     js ''7890'' \<and>
   15 \<le> length (js ''GB29NWBK60161331926819'') \<and>
   take 4 (mask_iban (js ''GB29NWBK60161331926819'')) = js ''GB29'' \<and>
   drop (length (mask_iban (js ''GB29NWBK60161331926819'')) - 4)
     (mask_iban (js ''GB29NWBK60161331926819'')) = js ''6819''"
  using masking_round_trip [of "js ''1234567890''" "js ''GB29NWBK60161331926819''"]
  by (simp add: js_def)

section \<open>Validation\<close>

lemmas number_defs = Number_def trim_ws_def js_def is_str_whitespace_def is_line_terminator_def
  non_decimal_integer_literal_def str_decimal_literal_def str_unsigned_decimal_literal_def
  unsigned_decimal_def is_decimal_digit_def exponent_part_def signed_integer_def parse_digits_def
  digit_val_def round_double_def negate_def Let_def

lemma Number_250: "Number (js ''250.00'') = Finite 250"
  by (simp add: number_defs)

lemma Number_1000: "Number (js ''1000.00'') = Finite 1000"
  by (simp add: number_defs)

lemma Number_zero: "Number (js ''0'') = Finite 0"
  by (simp add: number_defs)

lemma Number_minus_five: "Number (js ''-5'') = Finite (- 5)"
  by (simp add: number_defs)

lemma Number_abc: "Number (js ''abc'') = NaN"
  by (simp add: number_defs)

lemma Number_twelve_fifty: "Number (js ''12.50'') = Finite (25 / 2)"
  by (simp add: number_defs)

lemma Number_one_cent: "Number (js ''0.01'') = Finite (1 / 100)"
  by (simp add: number_defs)

lemma amount_refinement_iff: "amount_refinement val = parses_as_positive_number val"
  by (cases "Number val") (simp_all add: amount_refinement_def parses_as_positive_number_def isNaN_def)

lemma amount_schema_eq:
  "amount_schema val =
     (if parses_as_positive_number val then [] else [(''amount'', ''Amount must be a positive number.'')])"
  by (simp add: amount_schema_def z_refine_def amount_refinement_iff)

lemma map_of_z_min:
  "map_of (z_min path n msg s) p = (if p = path \<and> length s < n then Some msg else None)"
  by (simp add: z_min_def)

lemma map_of_z_max:
  "map_of (z_max path n msg s) p = (if p = path \<and> n < length s then Some msg else None)"
  by (simp add: z_max_def)

lemma map_of_amount_schema:
  "map_of (amount_schema val) p =
     (if p = ''amount'' \<and> \<not> parses_as_positive_number val
      then Some ''Amount must be a positive number.'' else None)"
  by (simp add: amount_schema_eq)

lemma map_of_z_literal:
  "map_of (z_literal path name e a) p =
     (if p = path \<and> a \<noteq> e
      then Some (''Invalid literal value, expected '' @ [CHR 0x22] @ name @ [CHR 0x22]) else None)"
  by (simp add: z_literal_def)

lemma map_of_z_string:
  "map_of (z_string path checks v) p =
     (case v of None \<Rightarrow> (if p = path then Some ''Required'' else None)
      | Some s \<Rightarrow> map_of (checks s) p)"
  by (simp add: z_string_def split: option.splits)

lemmas map_of_checks = map_of_z_min map_of_z_max map_of_amount_schema
  map_of_z_literal map_of_z_string map_add_def

lemma dom_valid_iff: "(domesticFormSchema d = []) = spec_well_formed Domestic d"
  by (cases "variant d")
     (auto simp add: domesticFormSchema_def spec_well_formed_def z_literal_def transferType_def
        z_string_def z_min_def z_max_def routingNumber_schema_def amount_schema_eq
        accountNumber_def routingNumber_def)

lemma intl_valid_iff: "(internationalFormSchema d = []) = spec_well_formed International d"
  by (cases "variant d")
     (auto simp add: internationalFormSchema_def international_fields_def spec_well_formed_def
        z_literal_def transferType_def
        z_string_def z_min_def z_max_def swiftCode_schema_def amount_schema_eq
        iban_def swiftCode_def bankAddress_def bankCountry_def currency_def)

lemma resolver_valid_iff: "(resolver tab d = []) = spec_well_formed tab d"
  by (cases tab) (simp_all add: resolver_def dom_valid_iff intl_valid_iff)


lemma field_error_domestic:
  "field_error (domesticFormSchema d) p \<noteq> None \<longleftrightarrow> spec_field_violated Domestic d p"
  by (cases "variant d")
     (auto simp add: field_error_def domesticFormSchema_def map_of_checks routingNumber_schema_def
        spec_field_violated_def transferType_def accountNumber_def routingNumber_def too_short_def
        split: option.splits)

lemma field_error_international:
  "field_error (internationalFormSchema d) p \<noteq> None \<longleftrightarrow> spec_field_violated International d p"
  by (cases "variant d")
     (auto simp add: field_error_def internationalFormSchema_def international_fields_def
        map_of_checks swiftCode_schema_def
        spec_field_violated_def transferType_def iban_def swiftCode_def bankAddress_def
        bankCountry_def currency_def too_short_def
        split: option.splits)

lemma field_error_resolver:
  "field_error (resolver tab d) p \<noteq> None \<longleftrightarrow> spec_field_violated tab d p"
  using field_error_domestic [of d p] field_error_international [of d p]
  by (cases tab) (simp_all add: resolver_def)

lemma messages_domestic: "(p, m) \<in> set (domesticFormSchema d) \<Longrightarrow> m \<noteq> []"
  by (auto simp add: domesticFormSchema_def z_literal_def z_string_def z_min_def z_max_def
        routingNumber_schema_def amount_schema_eq split: if_splits option.splits)

lemma messages_international: "(p, m) \<in> set (internationalFormSchema d) \<Longrightarrow> m \<noteq> []"
  by (auto simp add: internationalFormSchema_def international_fields_def z_literal_def
        z_string_def z_min_def z_max_def
        swiftCode_schema_def amount_schema_eq split: if_splits option.splits)

lemma messages_resolver: "(p, m) \<in> set (resolver tab d) \<Longrightarrow> m \<noteq> []"
  by (cases tab) (auto simp add: resolver_def dest: messages_domestic messages_international)

lemma field_error_nonempty: "field_error (resolver tab d) p = Some m \<Longrightarrow> m \<noteq> []"
  unfolding field_error_def by (blast dest: map_of_SomeD messages_resolver)


text \<open>
  C6: the summary shows the account number with all but the last four characters
  replaced by \<open>*\<close>.  The pattern \<open>/./g\<close> passes over line terminators: the account
  number \<open>1234\<close>, U+2028, \<open>5678\<close> passes the domestic schema and is shown with the
  U+2028 still in place, where the claim has five stars before \<open>5678\<close>.
\<close>

theorem mask_account_line_terminator:
  "domesticFormSchema
     (example_domestic\<lparr>variant :=
        DomesticFields (js ''1234'' @ [0x2028] @ js ''5678'') (js ''123456789'')\<rparr>) = [] \<and>
   TransferSummary_details
     (example_domestic\<lparr>variant :=
        DomesticFields (js ''1234'' @ [0x2028] @ js ''5678'') (js ''123456789'')\<rparr>) =
     [(''Account Number:'', js ''****'' @ [0x2028] @ js ''5678''),
      (''Routing Number:'', js ''123456789'')] \<and>
   js ''****'' @ [0x2028] @ js ''5678'' \<noteq> js ''*****5678''"
proof -
  have "spec_well_formed Domestic
      (example_domestic\<lparr>variant :=
         DomesticFields (js ''1234'' @ [0x2028] @ js ''5678'') (js ''123456789'')\<rparr>)"
    by (simp add: spec_well_formed_def example_domestic_def parses_as_positive_number_def
          Number_250)
       (simp add: js_def)
  then show ?thesis
    by (simp add: dom_valid_iff)
       (simp add: TransferSummary_details_def example_domestic_def mask_account_eq js_def
          replace_dot_g_def is_line_terminator_def star_def)
qed

lemma map_of_international_fields_amount:
  "map_of (international_fields x) ''amount'' = map_of (amount_schema (amount x)) ''amount''"
  by (cases "variant x")
     (simp_all add: international_fields_def map_of_checks swiftCode_schema_def iban_def
        swiftCode_def bankAddress_def bankCountry_def currency_def)

text \<open>
  C3: the amount rule accepts a string exactly when \<open>Number\<close> of it is a number
  greater than zero, in each of the three schemas; a rejected amount gets the one message
  on the path \<open>amount\<close>.  \<open>0\<close>, \<open>-5\<close> and \<open>abc\<close> are rejected, \<open>12.50\<close> and
  \<open>0.01\<close> accepted.
\<close>

theorem amount_rule:
  "amount_schema val =
     (if parses_as_positive_number val then []
      else [(''amount'', ''Amount must be a positive number.'')]) \<and>
   field_error (domesticFormSchema d) ''amount'' = map_of (amount_schema (amount d)) ''amount'' \<and>
   field_error (internationalFormSchema d) ''amount'' =
     map_of (amount_schema (amount d)) ''amount'' \<and>
   field_error (stripeFormSchema e) ''amount'' = map_of (amount_schema (amount e)) ''amount'' \<and>
   amount_schema (js ''0'') = [(''amount'', ''Amount must be a positive number.'')] \<and>
   amount_schema (js ''-5'') = [(''amount'', ''Amount must be a positive number.'')] \<and>
   amount_schema (js ''abc'') = [(''amount'', ''Amount must be a positive number.'')] \<and>
   amount_schema (js ''12.50'') = [] \<and>
   amount_schema (js ''0.01'') = []"
proof -
  have dom: "field_error (domesticFormSchema d) ''amount'' =
      map_of (amount_schema (amount d)) ''amount''"
    by (cases "variant d")
       (simp_all add: field_error_def domesticFormSchema_def map_of_checks
          routingNumber_schema_def accountNumber_def routingNumber_def)
  have intl: "field_error (internationalFormSchema d) ''amount'' =
      map_of (amount_schema (amount d)) ''amount''"
    using map_of_international_fields_amount [of d]
    by (simp add: field_error_def internationalFormSchema_def map_of_z_literal map_add_def
          split: option.splits)
  have stripe: "field_error (stripeFormSchema e) ''amount'' =
      map_of (amount_schema (amount e)) ''amount''"
    using map_of_international_fields_amount [of e]
    by (simp add: field_error_def stripeFormSchema_def z_refine_def map_add_def
          split: option.splits)
  have examples:
    "\<not> parses_as_positive_number (js ''0'')" "\<not> parses_as_positive_number (js ''-5'')"
    "\<not> parses_as_positive_number (js ''abc'')" "parses_as_positive_number (js ''12.50'')"
    "parses_as_positive_number (js ''0.01'')"
    by (simp_all add: parses_as_positive_number_def Number_zero Number_minus_five Number_abc
          Number_twelve_fifty Number_one_cent)
  show ?thesis
    using dom intl stripe examples by (simp add: amount_schema_eq)
qed

theorem amount_rule_witness:
  "parses_as_positive_number (js ''250.00'') \<and> amount_schema (js ''250.00'') = [] \<and>
   field_error (domesticFormSchema example_domestic) ''amount'' = None"
  using amount_rule [where val = "js ''250.00''" and d = example_domestic]
  by (simp add: parses_as_positive_number_def Number_250 example_domestic_def)

text \<open>
  C10: the routing number passes exactly when it has nine characters, whatever they are;
  \<open>abcdefghi\<close> passes.  A shorter one gets the message of the schema, a longer one
  zod's own.
\<close>

theorem routingNumber_rule:
  "(routingNumber_schema r = []) = (length r = 9) \<and>
   field_error (domesticFormSchema (d\<lparr>variant := DomesticFields a r\<rparr>)) ''routingNumber'' =
     (if length r = 9 then None
      else if length r < 9 then Some ''Routing number must be 9 digits.''
      else Some ''String must contain at most 9 character(s)'') \<and>
   routingNumber_schema (js ''abcdefghi'') = []"
proof -
  have "(routingNumber_schema r = []) = (length r = 9)"
    by (auto simp add: routingNumber_schema_def z_min_def z_max_def)
  moreover have
    "field_error (domesticFormSchema (d\<lparr>variant := DomesticFields a r\<rparr>)) ''routingNumber'' =
     (if length r = 9 then None
      else if length r < 9 then Some ''Routing number must be 9 digits.''
      else Some ''String must contain at most 9 character(s)'')"
    by (simp add: field_error_def domesticFormSchema_def map_of_checks routingNumber_schema_def
          accountNumber_def routingNumber_def)
  moreover have "routingNumber_schema (js ''abcdefghi'') = []"
    by (simp add: routingNumber_schema_def z_min_def z_max_def js_def)
  ultimately show ?thesis by simp
qed

theorem routingNumber_rule_witness:
  "field_error (domesticFormSchema example_domestic) ''routingNumber'' = None \<and>
   field_error
     (domesticFormSchema (example_domestic\<lparr>variant :=
        DomesticFields (js ''1234567890'') (js ''12345678'')\<rparr>)) ''routingNumber'' =
     Some ''Routing number must be 9 digits.''"
  using routingNumber_rule [where r = "js ''123456789''" and d = example_domestic
      and a = "js ''1234567890''"]
    routingNumber_rule [where r = "js ''12345678''" and d = example_domestic
      and a = "js ''1234567890''"]
  by (simp add: js_def example_domestic_def)

section \<open>Submitting the form\<close>

text \<open>
  C1: when every field of the active variant meets its rule, submitting moves the wizard
  to the summary and commits the form's values as they are.
\<close>

theorem submit_valid:
  assumes "spec_well_formed (activeTab s) (form s)"
  shows "step (handleSubmit s) = Summary \<and> formData (handleSubmit s) = Some (form s) \<and>
         handleSubmit s = s\<lparr>form_errors := [], formData := Some (form s), step := Summary\<rparr>"
  using assms by (simp add: handleSubmit_def onSubmit_def resolver_valid_iff)

lemma example_domestic_well_formed: "spec_well_formed Domestic example_domestic"
  by (simp add: spec_well_formed_def example_domestic_def parses_as_positive_number_def
        Number_250)
     (simp add: js_def)

theorem submit_valid_witness:
  "spec_well_formed (activeTab (example_wizard example_domestic))
     (form (example_wizard example_domestic)) \<and>
   step (example_wizard example_domestic) = Form \<and>
   step (handleSubmit (example_wizard example_domestic)) = Summary \<and>
   formData (handleSubmit (example_wizard example_domestic)) = Some example_domestic"
proof -
  have tab: "activeTab (example_wizard example_domestic) = Domestic"
    by (simp add: example_wizard_def transferType_def example_domestic_def)
  have wf: "spec_well_formed (activeTab (example_wizard example_domestic))
      (form (example_wizard example_domestic))"
    using example_domestic_well_formed by (simp add: tab) (simp add: example_wizard_def)
  show ?thesis
    using wf submit_valid [OF wf] by (simp add: example_wizard_def)
qed

text \<open>
  C2: when a field of the active variant is missing or breaks its rule, submitting leaves
  the step and the committed draft as they were, and the errors name exactly the fields
  that break their rules, each with a message that is not empty.
\<close>

theorem submit_invalid:
  assumes "\<not> spec_well_formed (activeTab s) (form s)"
  shows "step (handleSubmit s) = step s \<and> formData (handleSubmit s) = formData s \<and>
         form_errors (handleSubmit s) \<noteq> [] \<and>
         (\<forall>p. spec_field_violated (activeTab s) (form s) p \<longleftrightarrow>
              (\<exists>m. field_error (form_errors (handleSubmit s)) p = Some m \<and> m \<noteq> []))"
proof -
  have ne: "resolver (activeTab s) (form s) \<noteq> []"
    using assms by (simp add: resolver_valid_iff)
  then have hs: "handleSubmit s = s\<lparr>form_errors := resolver (activeTab s) (form s)\<rparr>"
    by (simp add: handleSubmit_def Let_def)
  have "spec_field_violated (activeTab s) (form s) p \<longleftrightarrow>
        (\<exists>m. field_error (resolver (activeTab s) (form s)) p = Some m \<and> m \<noteq> [])" for p
    using field_error_resolver [of "activeTab s" "form s" p] field_error_nonempty by fastforce
  with ne show ?thesis by (simp add: hs)
qed

theorem submit_invalid_witness:
  "\<not> spec_well_formed (activeTab (example_wizard (example_domestic\<lparr>amount := js ''0''\<rparr>)))
       (form (example_wizard (example_domestic\<lparr>amount := js ''0''\<rparr>))) \<and>
   step (handleSubmit (example_wizard (example_domestic\<lparr>amount := js ''0''\<rparr>))) = Form \<and>
   formData (handleSubmit (example_wizard (example_domestic\<lparr>amount := js ''0''\<rparr>))) = None \<and>
   form_errors (handleSubmit (example_wizard (example_domestic\<lparr>amount := js ''0''\<rparr>))) =
     [(''amount'', ''Amount must be a positive number.'')]"
proof -
  let ?s = "example_wizard (example_domestic\<lparr>amount := js ''0''\<rparr>)"
  have tab: "activeTab ?s = Domestic"
    by (simp add: example_wizard_def transferType_def example_domestic_def)
  have frm: "form ?s = example_domestic\<lparr>amount := js ''0''\<rparr>"
    by (simp add: example_wizard_def)
  have nwf: "\<not> spec_well_formed (activeTab ?s) (form ?s)"
    by (simp add: tab frm spec_well_formed_def parses_as_positive_number_def Number_zero)
  have errs: "resolver Domestic (example_domestic\<lparr>amount := js ''0''\<rparr>) =
      [(''amount'', ''Amount must be a positive number.'')]"
    by (simp add: resolver_def domesticFormSchema_def example_domestic_def z_literal_def
          transferType_def z_string_def z_min_def z_max_def routingNumber_schema_def
          accountNumber_def routingNumber_def amount_schema_eq
          parses_as_positive_number_def Number_zero)
       (simp add: js_def)
  have "form_errors (handleSubmit ?s) = resolver Domestic (example_domestic\<lparr>amount := js ''0''\<rparr>)"
    by (simp add: handleSubmit_def Let_def tab frm errs)
  with nwf submit_invalid [OF nwf] errs show ?thesis
    by (simp add: example_wizard_def)
qed

section \<open>The Stripe fields\<close>

lemma map_of_international_fields_stripe:
  "map_of (international_fields x) ''stripeAccountId'' = None \<and>
   map_of (international_fields x) ''stripePublishableKey'' = None \<and>
   map_of (international_fields x) ''useStripe'' = None"
  by (cases "variant x")
     (simp_all add: international_fields_def map_of_checks swiftCode_schema_def iban_def
        swiftCode_def bankAddress_def bankCountry_def currency_def)

lemma stripe_valid_iff:
  "(stripeFormSchema data = []) = (international_fields data = [] \<and> spec_stripe_ok data)"
  by (cases "variant data")
     (auto simp add: stripeFormSchema_def international_fields_def spec_stripe_ok_def
        transferType_def z_refine_def z_string_def z_min_def
        stripeAccountId_refinement_def stripePublishableKey_refinement_def too_short_def
        iban_def split: option.splits if_splits)

lemma example_stripe_fields: "international_fields example_stripe = []"
  by (simp add: international_fields_def example_stripe_def z_string_def z_min_def z_max_def
        swiftCode_schema_def amount_schema_eq parses_as_positive_number_def Number_1000
        iban_def swiftCode_def bankAddress_def bankCountry_def currency_def)
     (simp add: js_def)

text \<open>
  C4: with the other fields valid, the values pass exactly when \<open>useStripe\<close> is false or
  both Stripe fields reach their minimum lengths; a Stripe field that does not, with
  \<open>useStripe\<close> true, gets its message on its own path, and nothing is ever reported on
  \<open>useStripe\<close>.
\<close>

theorem stripe_rule:
  "(stripeFormSchema data = []) = (international_fields data = [] \<and> spec_stripe_ok data) \<and>
   (transferType data = International \<longrightarrow>
      field_error (stripeFormSchema data) ''stripeAccountId'' =
        (if useStripe data \<and> too_short 3 (stripeAccountId data)
         then Some ''Stripe Account ID is required when using Stripe.'' else None) \<and>
      field_error (stripeFormSchema data) ''stripePublishableKey'' =
        (if useStripe data \<and> too_short 10 (stripePublishableKey data)
         then Some ''Stripe Publishable Key is required when using Stripe.'' else None)) \<and>
   field_error (stripeFormSchema data) ''useStripe'' = None"
  using map_of_international_fields_stripe [of data] stripe_valid_iff [of data]
  by (auto simp add: field_error_def stripeFormSchema_def z_refine_def map_add_def
        stripeAccountId_refinement_def stripePublishableKey_refinement_def too_short_def
        split: option.splits)

theorem stripe_rule_witness:
  "transferType example_stripe = International \<and>
   useStripe example_stripe \<and> stripeAccountId example_stripe = Some [] \<and>
   international_fields example_stripe = [] \<and> \<not> spec_stripe_ok example_stripe \<and>
   stripeFormSchema example_stripe =
     [(''stripeAccountId'', ''Stripe Account ID is required when using Stripe.'')] \<and>
   field_error (stripeFormSchema example_stripe) ''stripeAccountId'' =
     Some ''Stripe Account ID is required when using Stripe.'' \<and>
   field_error (stripeFormSchema example_stripe) ''stripePublishableKey'' = None \<and>
   field_error (stripeFormSchema example_stripe) ''useStripe'' = None"
proof -
  have shape: "transferType example_stripe = International" "useStripe example_stripe"
    "stripeAccountId example_stripe = Some []"
    "stripePublishableKey example_stripe = Some (js ''pk_test_0123456789'')"
    by (simp_all add: example_stripe_def transferType_def)
  have issues: "stripeFormSchema example_stripe =
      [(''stripeAccountId'', ''Stripe Account ID is required when using Stripe.'')]"
    by (simp add: stripeFormSchema_def example_stripe_fields shape z_refine_def
          stripeAccountId_refinement_def stripePublishableKey_refinement_def)
       (simp add: js_def)
  show ?thesis
    using stripe_rule [of example_stripe] shape example_stripe_fields issues
    by (simp add: too_short_def js_def)
qed

section \<open>Confirming the transfer\<close>

text \<open>
  C5, as the code has it: \<open>handleConfirmTransfer\<close> has no pending guard.  Every call
  schedules a callback of its own and leaves the step as it is; after two calls, two
  callbacks are pending, and once both have run two success toasts have been shown and the
  step is \<open>success\<close>.
\<close>

theorem confirm_twice:
  "timers (handleConfirmTransfer (handleConfirmTransfer s)) =
     timers s @ [formData s, formData s] \<and>
   step (handleConfirmTransfer s) = step s \<and>
   (timers s = [] \<longrightarrow>
      step (timer_fires (timer_fires (handleConfirmTransfer (handleConfirmTransfer s)))) =
        Success \<and>
      timers (timer_fires (timer_fires (handleConfirmTransfer (handleConfirmTransfer s)))) =
        [] \<and>
      toasts (timer_fires (timer_fires (handleConfirmTransfer (handleConfirmTransfer s)))) =
        toasts s @ [success_toast (formData s), success_toast (formData s)])"
  by (simp add: handleConfirmTransfer_def timer_fires_def success_toast_def)

theorem confirm_twice_witness:
  "timers example_summary = [] \<and>
   step (timer_fires (timer_fires
     (handleConfirmTransfer (handleConfirmTransfer example_summary)))) = Success \<and>
   length (toasts (timer_fires (timer_fires
     (handleConfirmTransfer (handleConfirmTransfer example_summary))))) = 2"
  using confirm_twice [of example_summary] by (simp add: example_summary_def)

theorem confirm_twice_counterexample:
  "handleConfirmTransfer (handleConfirmTransfer example_summary) \<noteq>
     handleConfirmTransfer example_summary \<and>
   length (timers (handleConfirmTransfer (handleConfirmTransfer example_summary))) = 2 \<and>
   length (toasts (timer_fires (timer_fires
     (handleConfirmTransfer (handleConfirmTransfer example_summary))))) = 2"
proof -
  have "timers (handleConfirmTransfer (handleConfirmTransfer example_summary)) \<noteq>
      timers (handleConfirmTransfer example_summary)"
    by (simp add: handleConfirmTransfer_def example_summary_def)
  then have "handleConfirmTransfer (handleConfirmTransfer example_summary) \<noteq>
      handleConfirmTransfer example_summary"
    by auto
  then show ?thesis
    by (simp add: handleConfirmTransfer_def timer_fires_def example_summary_def)
qed

section \<open>Changing the tab\<close>

text \<open>
  C9, as the code has it: changing the tab gives the fields of the newly active variant
  their defaults and leaves the form without the fields of the other variant (they are
  absent, not empty or \<open>USD\<close>); \<open>recipientName\<close>, \<open>amount\<close>, \<open>bankName\<close> and
  \<open>description\<close> keep their values, an absent description becoming the empty string.
\<close>

theorem select_variant:
  assumes "v \<noteq> activeTab s"
  shows "activeTab (selectVariant v s) = v \<and>
         step (selectVariant v s) = step s \<and> formData (selectVariant v s) = formData s \<and>
         recipientName (form (selectVariant v s)) = recipientName (form s) \<and>
         amount (form (selectVariant v s)) = amount (form s) \<and>
         bankName (form (selectVariant v s)) = bankName (form s) \<and>
         description (form (selectVariant v s)) =
           Some (case description (form s) of None \<Rightarrow> [] | Some d \<Rightarrow> d) \<and>
         variant (form (selectVariant v s)) =
           (case v of
              Domestic \<Rightarrow> DomesticFields [] []
            | International \<Rightarrow> InternationalFields [] [] [] [] (js ''USD'')) \<and>
         (case v of
            Domestic \<Rightarrow>
              accountNumber (form (selectVariant v s)) = Some [] \<and>
              routingNumber (form (selectVariant v s)) = Some [] \<and>
              iban (form (selectVariant v s)) = None \<and>
              swiftCode (form (selectVariant v s)) = None \<and>
              bankAddress (form (selectVariant v s)) = None \<and>
              bankCountry (form (selectVariant v s)) = None \<and>
              currency (form (selectVariant v s)) = None
          | International \<Rightarrow>
              iban (form (selectVariant v s)) = Some [] \<and>
              swiftCode (form (selectVariant v s)) = Some [] \<and>
              bankAddress (form (selectVariant v s)) = Some [] \<and>
              bankCountry (form (selectVariant v s)) = Some [] \<and>
              currency (form (selectVariant v s)) = Some (js ''USD'') \<and>
              accountNumber (form (selectVariant v s)) = None \<and>
              routingNumber (form (selectVariant v s)) = None)"
  using assms
  by (cases v)
     (auto simp add: selectVariant_def handleTabChange_def tab_effect_def or_empty_def
        default_variant_def accountNumber_def routingNumber_def iban_def swiftCode_def
        bankAddress_def bankCountry_def currency_def split: option.splits)

theorem select_variant_witness:
  "International \<noteq> activeTab (example_wizard example_domestic) \<and>
   recipientName (form (selectVariant International (example_wizard example_domestic))) =
     js ''John Doe'' \<and>
   amount (form (selectVariant International (example_wizard example_domestic))) =
     js ''250.00'' \<and>
   currency (form (selectVariant International (example_wizard example_domestic))) =
     Some (js ''USD'') \<and>
   accountNumber (form (selectVariant International (example_wizard example_domestic))) = None"
proof -
  have ne: "International \<noteq> activeTab (example_wizard example_domestic)"
    by (simp add: example_wizard_def transferType_def example_domestic_def)
  show ?thesis
    using ne select_variant [OF ne] by (simp add: example_wizard_def example_domestic_def)
qed

theorem select_variant_counterexample:
  "Domestic \<noteq> activeTab (example_wizard example_international) \<and>
   currency (form (selectVariant Domestic (example_wizard example_international))) \<noteq>
     Some (js ''USD'') \<and>
   iban (form (selectVariant Domestic (example_wizard example_international))) \<noteq> Some (js [])"
  by (simp add: selectVariant_def handleTabChange_def tab_effect_def default_variant_def
        example_wizard_def transferType_def example_international_def currency_def iban_def)

end
